theory Spec2Isabelle
  imports Complex_Main
begin

section \<open>The position ledger: data model\<close>

text \<open>
  The embedding follows the class \<open>PositionTracker\<close> (file \<open>position-tracker\<close>) and the
  tables \<open>positions\<close> and \<open>position_flags\<close> of \<open>db/schema.sql\<close>.

  Quantities (amounts, costs, proceeds, prices) are rationals. The columns that hold them
  are \<open>DECIMAL(18, 9)\<close>: a value is rounded to nine fractional digits when it is written
  to a row (\<open>numeric_18_9\<close> below), and the code reads it back with \<open>parseFloat\<close>.
  Between a read and a write the arithmetic of the code is taken as exact: the rounding of
  binary floating point and the special values \<open>NaN\<close> and \<open>Infinity\<close> are not part of
  this model.
  Timestamps are natural numbers; one clock reading \<open>now\<close> is passed to each call and
  stands both for \<open>new Date()\<close> and for the \<open>NOW()\<close> of the database.
\<close>

datatype position_status = OPEN | PARTIAL | CLOSED

datatype flag_kind =
  sell_without_position | sell_exceeds_position | suspicious_pnl
  | oversized_position | balance_mismatch

datatype severity_level = info | warning | critical

text \<open>A row of \<open>positions\<close> (the interface \<open>Position\<close>); \<open>row_id\<close> is the column \<open>id\<close>.\<close>

record Position =
  row_id :: nat
  wallet_id :: int
  token :: string
  status :: position_status
  entry_trade_id :: "int option"
  entry_timestamp :: nat
  total_entry_amount :: rat
  total_entry_cost :: rat
  avg_entry_price :: rat
  current_amount :: rat
  total_exit_amount :: rat
  total_exit_proceeds :: rat
  realized_pnl :: rat
  first_entry_at :: nat
  last_exit_at :: "nat option"
  closed_at :: "nat option"
  created_at :: nat
  updated_at :: nat

text \<open>
  The free-text description of a flag and the message of an error are template strings;
  each is kept as the template's name with the interpolated values.
\<close>

datatype flag_description =
  NoPositionText rat string int int
  | ExceedsText rat string rat nat int
  | LargePositionText string rat int
  | SuspiciousPnlText rat nat int

text \<open>A row of \<open>position_flags\<close>.\<close>

record Flag =
  flag_id :: nat
  flag_position_id :: "nat option"
  flag_trade_id :: "int option"
  flag_wallet_id :: int
  flag_type :: flag_kind
  severity :: severity_level
  description :: flag_description
  resolved :: bool
  flag_created_at :: nat

datatype error =
  InvalidBuyAmount rat
  | InvalidBuyCost rat
  | InvalidSellAmount rat
  | InvalidProceeds rat
  | NoOpenPosition rat string int
  | InsufficientPosition rat string rat nat
  | RowUndefined

record SellResult =
  position :: Position
  result_realized_pnl :: rat
  cost_basis :: rat

text \<open>The persisted state: the two tables and their \<open>SERIAL\<close> counters.\<close>

record db =
  positions :: "Position list"
  position_flags :: "Flag list"
  positions_seq :: nat
  position_flags_seq :: nat

definition empty_db :: db where
  "empty_db = \<lparr>positions = [], position_flags = [], positions_seq = 1, position_flags_seq = 1\<rparr>"

section \<open>Storage primitives\<close>

text \<open>
  Modelled from the spec: the module \<open>lib/db/client\<close> (\<open>query\<close>, \<open>transaction\<close>) is not
  part of the sources. The spec asks for "a transactional query/execute primitive against
  the durable store" and says that raising a flag always succeeds and persists the flag,
  also when the surrounding call is rejected. Accordingly \<open>transaction\<close> runs its body and,
  when the body throws, restores the \<open>positions\<close> table it started from and rethrows;
  rows written through the module-level \<open>query\<close> (the \<open>position_flags\<close> rows of
  \<open>flagIssue\<close>, which does not use the transaction's client) are kept. Statements
  themselves do not fail.
\<close>

definition transaction :: "(db \<Rightarrow> (error + 'a) \<times> db) \<Rightarrow> db \<Rightarrow> (error + 'a) \<times> db" where
  "transaction body s =
     (case body s of
        (Inr v, s') \<Rightarrow> (Inr v, s')
      | (Inl e, s') \<Rightarrow> (Inl e, s'\<lparr>positions := positions s\<rparr>))"

text \<open>
  \<open>SELECT * FROM positions WHERE wallet_id = $1 AND token = $2
  AND status IN ('OPEN', 'PARTIAL') ORDER BY first_entry_at ASC LIMIT 1\<close>
\<close>

definition is_open_for :: "int \<Rightarrow> string \<Rightarrow> Position \<Rightarrow> bool" where
  "is_open_for w t r \<longleftrightarrow>
     wallet_id r = w \<and> token r = t \<and> (status r = OPEN \<or> status r = PARTIAL)"

definition select_open :: "int \<Rightarrow> string \<Rightarrow> Position list \<Rightarrow> Position list" where
  "select_open w t rows = take 1 (sort_key first_entry_at (filter (is_open_for w t) rows))"

text \<open>
  \<open>UPDATE positions SET ... WHERE id = $n RETURNING *\<close>: \<open>set_cols\<close> is the \<open>SET\<close>
  clause; the trigger \<open>update_positions_updated_at\<close> stamps every updated row.
\<close>

definition update_where_id ::
  "nat \<Rightarrow> (Position \<Rightarrow> Position) \<Rightarrow> nat \<Rightarrow> Position list \<Rightarrow> Position list" where
  "update_where_id i set_cols now rows =
     map (\<lambda>r. if row_id r = i then (set_cols r)\<lparr>updated_at := now\<rparr> else r) rows"

definition returning :: "nat \<Rightarrow> Position list \<Rightarrow> Position list" where
  "returning i rows = filter (\<lambda>r. row_id r = i) rows"

text \<open>\<open>this.mapPosition(res.rows[0])\<close>: reading a field of \<open>undefined\<close> throws.\<close>

definition mapPosition :: "Position list \<Rightarrow> error + Position" where
  "mapPosition rows = (case rows of [] \<Rightarrow> Inl RowUndefined | r # _ \<Rightarrow> Inr r)"

text \<open>
  The column type \<open>DECIMAL(18, 9)\<close> of \<open>db/schema.sql\<close>: a written value is rounded
  to nine fractional digits, a tie away from zero (the rounding of PostgreSQL's
  \<open>numeric\<close>). A value with more than nine integer digits is kept as it is: statements
  do not fail in this model.
\<close>

definition numeric_18_9 :: "rat \<Rightarrow> rat" where
  "numeric_18_9 x =
     (if 0 \<le> x then of_int \<lfloor>x * 10 ^ 9 + 1 / 2\<rfloor> / 10 ^ 9
      else - (of_int \<lfloor>- x * 10 ^ 9 + 1 / 2\<rfloor> / 10 ^ 9))"

section \<open>Operations\<close>

text \<open>
  \<open>flagIssue\<close>: one \<open>INSERT INTO position_flags\<close>; \<open>positionId || null\<close> and
  \<open>tradeId || null\<close> turn a missing or zero identifier into \<open>NULL\<close>. The statement
  is taken to succeed and to return: its errors, and its waiting on a row that an open
  transaction has locked, are not part of this model.
\<close>

definition or_null_nat :: "nat option \<Rightarrow> nat option" where
  "or_null_nat x = (case x of None \<Rightarrow> None | Some i \<Rightarrow> if i = 0 then None else Some i)"

definition or_null_int :: "int option \<Rightarrow> int option" where
  "or_null_int x = (case x of None \<Rightarrow> None | Some i \<Rightarrow> if i = 0 then None else Some i)"

definition flagIssue ::
  "nat option \<Rightarrow> int option \<Rightarrow> int \<Rightarrow> flag_kind \<Rightarrow> severity_level \<Rightarrow> flag_description
     \<Rightarrow> nat \<Rightarrow> db \<Rightarrow> db" where
  "flagIssue positionId tradeId walletId flagType sev descr now s =
     s\<lparr>position_flags := position_flags s @
          [\<lparr>flag_id = position_flags_seq s,
            flag_position_id = or_null_nat positionId,
            flag_trade_id = or_null_int tradeId,
            flag_wallet_id = walletId,
            flag_type = flagType,
            severity = sev,
            description = descr,
            resolved = False,
            flag_created_at = now\<rparr>],
       position_flags_seq := Suc (position_flags_seq s)\<rparr>"

text \<open>
  \<open>recordBuy\<close>: the row inserted for a new position, and the \<open>SET\<close> clause of a
  top-up. Each value bound to a \<open>DECIMAL(18, 9)\<close> column is stored rounded.
\<close>

definition new_position :: "nat \<Rightarrow> int \<Rightarrow> string \<Rightarrow> rat \<Rightarrow> rat \<Rightarrow> int \<Rightarrow> nat \<Rightarrow> Position" where
  "new_position i walletId tok amount cost tradeId now =
     (let avgPrice = cost / amount in
      \<lparr>row_id = i, wallet_id = walletId, token = tok, status = OPEN,
       entry_trade_id = Some tradeId, entry_timestamp = now,
       total_entry_amount = numeric_18_9 amount, total_entry_cost = numeric_18_9 cost,
       avg_entry_price = numeric_18_9 avgPrice, current_amount = numeric_18_9 amount,
       total_exit_amount = 0, total_exit_proceeds = 0,
       realized_pnl = 0, first_entry_at = now, last_exit_at = None, closed_at = None,
       created_at = now, updated_at = now\<rparr>)"

definition buy_set :: "Position \<Rightarrow> rat \<Rightarrow> rat \<Rightarrow> Position \<Rightarrow> Position" where
  "buy_set existing amount cost r =
     (let newTotalEntryAmount = total_entry_amount existing + amount;
          newTotalEntryCost = total_entry_cost existing + cost;
          newAvgEntryPrice = newTotalEntryCost / newTotalEntryAmount;
          newCurrentAmount = current_amount existing + amount
      in r\<lparr>total_entry_amount := numeric_18_9 newTotalEntryAmount,
            total_entry_cost := numeric_18_9 newTotalEntryCost,
            avg_entry_price := numeric_18_9 newAvgEntryPrice,
            current_amount := numeric_18_9 newCurrentAmount\<rparr>)"

definition recordBuy ::
  "int \<Rightarrow> string \<Rightarrow> rat \<Rightarrow> rat \<Rightarrow> int \<Rightarrow> nat \<Rightarrow> db \<Rightarrow> (error + Position) \<times> db" where
  "recordBuy walletId tok amount cost tradeId now s =
     (if amount \<le> 0 then (Inl (InvalidBuyAmount amount), s)
      else if cost \<le> 0 then (Inl (InvalidBuyCost cost), s)
      else transaction (\<lambda>c.
        case select_open walletId tok (positions c) of
          [] \<Rightarrow>
            (let row = new_position (positions_seq c) walletId tok amount cost tradeId now;
                 c' = c\<lparr>positions := positions c @ [row],
                        positions_seq := Suc (positions_seq c)\<rparr>
             in (mapPosition [row], c'))
        | existing # _ \<Rightarrow>
            (let rows' = update_where_id (row_id existing) (buy_set existing amount cost) now
                           (positions c);
                 c' = c\<lparr>positions := rows'\<rparr>
             in (mapPosition (returning (row_id existing) rows'), c'))) s)"

text \<open>
  \<open>recordSell\<close>: the new status, the \<open>SET\<close> clause, and the two advisory checks.
  The status is decided on the computed remainder, before the column rounds it.
\<close>

definition sell_status :: "rat \<Rightarrow> rat \<Rightarrow> position_status" where
  "sell_status newCurrentAmount newTotalExitAmount =
     (if newCurrentAmount = 0 then CLOSED
      else if newTotalExitAmount > 0 then PARTIAL
      else OPEN)"

definition sell_set :: "Position \<Rightarrow> rat \<Rightarrow> rat \<Rightarrow> nat \<Rightarrow> Position \<Rightarrow> Position" where
  "sell_set pos amount proceeds now r =
     (let currentAmount = current_amount pos;
          avgEntryPrice = avg_entry_price pos;
          costBasis = avgEntryPrice * amount;
          realizedPnl = proceeds - costBasis;
          newCurrentAmount = currentAmount - amount;
          newTotalExitAmount = total_exit_amount pos + amount;
          newTotalExitProceeds = total_exit_proceeds pos + proceeds;
          newRealizedPnl = realized_pnl pos + realizedPnl;
          newStatus = sell_status newCurrentAmount newTotalExitAmount;
          closedAt = (if newCurrentAmount = 0 then Some now else None)
      in r\<lparr>current_amount := numeric_18_9 newCurrentAmount,
            total_exit_amount := numeric_18_9 newTotalExitAmount,
            total_exit_proceeds := numeric_18_9 newTotalExitProceeds,
            realized_pnl := numeric_18_9 newRealizedPnl,
            status := newStatus,
            last_exit_at := Some now,
            closed_at := closedAt\<rparr>)"

definition large_position_threshold :: rat where
  "large_position_threshold = 50000"

definition flag_oversized :: "Position \<Rightarrow> int \<Rightarrow> string \<Rightarrow> int \<Rightarrow> nat \<Rightarrow> db \<Rightarrow> db" where
  "flag_oversized pos walletId tok tradeId now s =
     (let positionValue = current_amount pos * avg_entry_price pos in
      if positionValue > large_position_threshold
      then flagIssue (Some (row_id pos)) (Some tradeId) walletId oversized_position warning
             (LargePositionText tok positionValue walletId) now s
      else s)"

definition flag_suspicious :: "Position \<Rightarrow> int \<Rightarrow> rat \<Rightarrow> rat \<Rightarrow> int \<Rightarrow> nat \<Rightarrow> db \<Rightarrow> db" where
  "flag_suspicious pos walletId amount proceeds tradeId now s =
     (let costBasis = avg_entry_price pos * amount;
          realizedPnl = proceeds - costBasis in
      if realizedPnl < 0 \<and> proceeds > costBasis * (11 / 10)
      then flagIssue (Some (row_id pos)) (Some tradeId) walletId suspicious_pnl warning
             (SuspiciousPnlText realizedPnl (row_id pos) tradeId) now s
      else s)"

definition recordSell ::
  "int \<Rightarrow> string \<Rightarrow> rat \<Rightarrow> rat \<Rightarrow> int \<Rightarrow> nat \<Rightarrow> db \<Rightarrow> (error + SellResult) \<times> db" where
  "recordSell walletId tok amount proceeds tradeId now s =
     (if amount \<le> 0 then (Inl (InvalidSellAmount amount), s)
      else if proceeds < 0 then (Inl (InvalidProceeds proceeds), s)
      else transaction (\<lambda>c.
        case select_open walletId tok (positions c) of
          [] \<Rightarrow>
            (Inl (NoOpenPosition amount tok walletId),
             flagIssue None (Some tradeId) walletId sell_without_position critical
               (NoPositionText amount tok walletId tradeId) now c)
        | pos # _ \<Rightarrow>
            (let currentAmount = current_amount pos in
             if amount > currentAmount
             then (Inl (InsufficientPosition amount tok currentAmount (row_id pos)),
                   flagIssue (Some (row_id pos)) (Some tradeId) walletId sell_exceeds_position
                     critical (ExceedsText amount tok currentAmount (row_id pos) tradeId) now c)
             else
               (let costBasis = avg_entry_price pos * amount;
                    realizedPnl = proceeds - costBasis;
                    rows' = update_where_id (row_id pos) (sell_set pos amount proceeds now) now
                              (positions c);
                    c' = c\<lparr>positions := rows'\<rparr>
                in case mapPosition (returning (row_id pos) rows') of
                     Inl e \<Rightarrow> (Inl e, c')
                   | Inr updatedPosition \<Rightarrow>
                       (Inr \<lparr>position = updatedPosition,
                             result_realized_pnl = realizedPnl,
                             cost_basis = costBasis\<rparr>,
                        flag_suspicious pos walletId amount proceeds tradeId now
                          (flag_oversized pos walletId tok tradeId now c'))))) s)"

text \<open>\<open>getOpenPosition\<close>: the same query, read-only.\<close>

definition getOpenPosition :: "int \<Rightarrow> string \<Rightarrow> db \<Rightarrow> Position option" where
  "getOpenPosition walletId tok s =
     (case select_open walletId tok (positions s) of [] \<Rightarrow> None | r # _ \<Rightarrow> Some r)"

section \<open>Vocabulary of the claims\<close>

text \<open>The errors that reject the input of a call before storage is touched.\<close>

fun invalid_input :: "error \<Rightarrow> bool" where
  "invalid_input (InvalidBuyAmount _) = True"
| "invalid_input (InvalidBuyCost _) = True"
| "invalid_input (InvalidSellAmount _) = True"
| "invalid_input (InvalidProceeds _) = True"
| "invalid_input _ = False"

text \<open>The flag rows that a call added: \<open>position_flags\<close> only grows at its end.\<close>

definition new_flags :: "db \<Rightarrow> db \<Rightarrow> Flag list" where
  "new_flags s s' = drop (length (position_flags s)) (position_flags s')"

text \<open>
  The primary key of \<open>positions\<close>: identifiers are distinct and below the next value of
  the \<open>SERIAL\<close> counter.
\<close>

definition wf_db :: "db \<Rightarrow> bool" where
  "wf_db s \<longleftrightarrow>
     distinct (map row_id (positions s)) \<and> list_all (\<lambda>r. row_id r < positions_seq s) (positions s)"

text \<open>A pair of wallet and token is fresh when no row of \<open>positions\<close> carries it.\<close>

definition fresh_pair :: "int \<Rightarrow> string \<Rightarrow> db \<Rightarrow> bool" where
  "fresh_pair w t s \<longleftrightarrow> list_all (\<lambda>r. \<not> (wallet_id r = w \<and> token r = t)) (positions s)"

text \<open>A sequence of calls; the results are dropped, the persisted state is threaded.\<close>

datatype ledger_op =
  Buy int string rat rat int nat
  | Sell int string rat rat int nat

fun apply_op :: "ledger_op \<Rightarrow> db \<Rightarrow> db" where
  "apply_op (Buy w t amount cost tid now) s = snd (recordBuy w t amount cost tid now s)"
| "apply_op (Sell w t amount proceeds tid now) s = snd (recordSell w t amount proceeds tid now s)"

definition run :: "ledger_op list \<Rightarrow> db \<Rightarrow> db" where
  "run ops s = fold apply_op ops s"



section \<open>Rounding to the scale of the columns\<close>

lemma floor_int_plus_half: "\<lfloor>(of_int n :: rat) + 1 / 2\<rfloor> = n"
  by (rule floor_unique) simp_all

lemma numeric_18_9_of_int [simp]: "numeric_18_9 (of_int k) = of_int k"
proof -
  have pos: "\<lfloor>(of_int k :: rat) * 10 ^ 9 + 1 / 2\<rfloor> = k * 10 ^ 9"
    using floor_int_plus_half [of "k * 10 ^ 9"] by simp
  have neg: "\<lfloor>- (of_int k :: rat) * 10 ^ 9 + 1 / 2\<rfloor> = - k * 10 ^ 9"
    using floor_int_plus_half [of "- k * 10 ^ 9"] by simp
  show ?thesis
    unfolding numeric_18_9_def pos neg by simp
qed

lemma numeric_18_9_numeral [simp]:
  "numeric_18_9 (numeral n) = numeral n" "numeric_18_9 0 = 0" "numeric_18_9 1 = 1"
  using numeric_18_9_of_int [of "numeral n"] numeric_18_9_of_int [of 0] numeric_18_9_of_int [of 1]
  by simp_all



lemma numeric_18_9_eqI:
  assumes "0 \<le> x" "of_int k \<le> x * 10 ^ 9 + 1 / 2" "x * 10 ^ 9 + 1 / 2 < of_int k + 1"
  shows "numeric_18_9 x = of_int k / 10 ^ 9"
proof -
  from assms(2,3) have "\<lfloor>x * 10 ^ 9 + 1 / 2\<rfloor> = k" by (rule floor_unique)
  with assms(1) show ?thesis by (simp add: numeric_18_9_def)
qed

section \<open>The outcome of each branch\<close>

lemma take1_ConsD: "take 1 xs = p # ps \<Longrightarrow> ps = [] \<and> p \<in> set xs"
  by (cases xs) auto

lemma select_open_ConsD:
  assumes "select_open w t rows = p # ps"
  shows "ps = [] \<and> p \<in> set rows \<and> is_open_for w t p"
proof -
  from assms have "ps = [] \<and> p \<in> set (sort_key first_entry_at (filter (is_open_for w t) rows))"
    unfolding select_open_def by (rule take1_ConsD)
  then show ?thesis by simp
qed

lemma select_open_Nil_iff:
  "select_open w t rows = [] \<longleftrightarrow> (\<forall>r\<in>set rows. \<not> is_open_for w t r)"
proof -
  have "select_open w t rows = [] \<longleftrightarrow> length (sort_key first_entry_at (filter (is_open_for w t) rows)) = 0"
    unfolding select_open_def by (simp del: length_sort)
  also have "\<dots> \<longleftrightarrow> filter (is_open_for w t) rows = []"
    by simp
  also have "\<dots> \<longleftrightarrow> (\<forall>r\<in>set rows. \<not> is_open_for w t r)"
    by (simp add: filter_empty_conv)
  finally show ?thesis .
qed

lemma returning_update:
  assumes "\<And>r. row_id (f r) = row_id r"
  shows "returning i (update_where_id i f now rows) =
         map (\<lambda>r. (f r)\<lparr>updated_at := now\<rparr>) (filter (\<lambda>r. row_id r = i) rows)"
  unfolding returning_def update_where_id_def
  by (induction rows) (simp_all add: assms)

lemma row_id_buy_set [simp]: "row_id (buy_set e a c r) = row_id r"
  by (simp add: buy_set_def Let_def)

lemma row_id_sell_set [simp]: "row_id (sell_set e a p now r) = row_id r"
  by (simp add: sell_set_def Let_def)

lemma mapPosition_returning:
  assumes "\<And>r. row_id (f r) = row_id r" and "e \<in> set rows"
  shows "\<exists>r\<in>set rows. row_id r = row_id e \<and>
           mapPosition (returning (row_id e) (update_where_id (row_id e) f now rows))
             = Inr ((f r)\<lparr>updated_at := now\<rparr>)"
proof -
  from assms(2) have "filter (\<lambda>r. row_id r = row_id e) rows \<noteq> []"
    by (auto simp: filter_empty_conv)
  then obtain r rs where fr: "filter (\<lambda>r. row_id r = row_id e) rows = r # rs"
    by (cases "filter (\<lambda>r. row_id r = row_id e) rows") auto
  then have "r \<in> set (filter (\<lambda>r. row_id r = row_id e) rows)" by simp
  then have "r \<in> set rows" "row_id r = row_id e" by auto
  moreover have "mapPosition (returning (row_id e) (update_where_id (row_id e) f now rows))
             = Inr ((f r)\<lparr>updated_at := now\<rparr>)"
    by (simp add: returning_update [OF assms(1)] fr mapPosition_def)
  ultimately show ?thesis by blast
qed

lemma flagIssue_positions [simp]: "positions (flagIssue a b c d e f g s) = positions s"
  by (simp add: flagIssue_def)

lemma flagIssue_rollback:
  "(flagIssue a b c d e f g s)\<lparr>positions := positions s\<rparr> = flagIssue a b c d e f g s"
  by (simp add: flagIssue_def)



lemma recordSell_no_position:
  assumes "0 < amount" "0 \<le> proceeds" "select_open w t (positions s) = []"
  shows "recordSell w t amount proceeds tid now s =
           (Inl (NoOpenPosition amount t w),
            flagIssue None (Some tid) w sell_without_position critical
              (NoPositionText amount t w tid) now s)"
  using assms by (simp add: recordSell_def transaction_def flagIssue_rollback)

lemma recordSell_exceeds:
  assumes "0 < amount" "0 \<le> proceeds" "select_open w t (positions s) = pos # ps"
    "current_amount pos < amount"
  shows "recordSell w t amount proceeds tid now s =
           (Inl (InsufficientPosition amount t (current_amount pos) (row_id pos)),
            flagIssue (Some (row_id pos)) (Some tid) w sell_exceeds_position critical
              (ExceedsText amount t (current_amount pos) (row_id pos) tid) now s)"
  using assms by (simp add: recordSell_def transaction_def flagIssue_rollback Let_def)

lemma recordSell_success:
  assumes "0 < amount" "0 \<le> proceeds" "select_open w t (positions s) = pos # ps"
    "amount \<le> current_amount pos"
  shows "\<exists>r\<in>set (positions s). row_id r = row_id pos \<and>
           recordSell w t amount proceeds tid now s =
           (Inr \<lparr>position = (sell_set pos amount proceeds now r)\<lparr>updated_at := now\<rparr>,
                 result_realized_pnl = proceeds - avg_entry_price pos * amount,
                 cost_basis = avg_entry_price pos * amount\<rparr>,
            flag_suspicious pos w amount proceeds tid now
              (flag_oversized pos w t tid now
                 (s\<lparr>positions := update_where_id (row_id pos) (sell_set pos amount proceeds now)
                                    now (positions s)\<rparr>)))"
proof -
  from assms(3) have "pos \<in> set (positions s)" by (simp add: select_open_ConsD)
  from mapPosition_returning [where f = "sell_set pos amount proceeds now" and e = pos
      and rows = "positions s" and now = now, OF row_id_sell_set this]
  obtain r where r: "r \<in> set (positions s)" "row_id r = row_id pos"
    "mapPosition (returning (row_id pos)
        (update_where_id (row_id pos) (sell_set pos amount proceeds now) now (positions s)))
      = Inr ((sell_set pos amount proceeds now r)\<lparr>updated_at := now\<rparr>)"
    by blast
  have "recordSell w t amount proceeds tid now s =
           (Inr \<lparr>position = (sell_set pos amount proceeds now r)\<lparr>updated_at := now\<rparr>,
                 result_realized_pnl = proceeds - avg_entry_price pos * amount,
                 cost_basis = avg_entry_price pos * amount\<rparr>,
            flag_suspicious pos w amount proceeds tid now
              (flag_oversized pos w t tid now
                 (s\<lparr>positions := update_where_id (row_id pos) (sell_set pos amount proceeds now)
                                    now (positions s)\<rparr>)))"
    using assms r(3) by (simp add: recordSell_def transaction_def Let_def)
  with r(1,2) show ?thesis by blast
qed

lemma recordBuy_invalid_amount:
  "amount \<le> 0 \<Longrightarrow> recordBuy w t amount cost tid now s = (Inl (InvalidBuyAmount amount), s)"
  by (simp add: recordBuy_def)

lemma recordBuy_invalid_cost:
  "0 < amount \<Longrightarrow> cost \<le> 0 \<Longrightarrow>
   recordBuy w t amount cost tid now s = (Inl (InvalidBuyCost cost), s)"
  by (simp add: recordBuy_def)

lemma recordBuy_create:
  assumes "0 < amount" "0 < cost" "select_open w t (positions s) = []"
  shows "recordBuy w t amount cost tid now s =
           (Inr (new_position (positions_seq s) w t amount cost tid now),
            s\<lparr>positions := positions s @ [new_position (positions_seq s) w t amount cost tid now],
              positions_seq := Suc (positions_seq s)\<rparr>)"
  using assms by (simp add: recordBuy_def transaction_def mapPosition_def Let_def)

lemma recordBuy_update:
  assumes "0 < amount" "0 < cost" "select_open w t (positions s) = e # es"
  shows "\<exists>r\<in>set (positions s). row_id r = row_id e \<and>
           recordBuy w t amount cost tid now s =
           (Inr ((buy_set e amount cost r)\<lparr>updated_at := now\<rparr>),
            s\<lparr>positions := update_where_id (row_id e) (buy_set e amount cost) now (positions s)\<rparr>)"
proof -
  from assms(3) have "e \<in> set (positions s)" by (simp add: select_open_ConsD)
  from mapPosition_returning [where f = "buy_set e amount cost" and e = e
      and rows = "positions s" and now = now, OF row_id_buy_set this]
  obtain r where r: "r \<in> set (positions s)" "row_id r = row_id e"
    "mapPosition (returning (row_id e)
        (update_where_id (row_id e) (buy_set e amount cost) now (positions s)))
      = Inr ((buy_set e amount cost r)\<lparr>updated_at := now\<rparr>)"
    by blast
  have "recordBuy w t amount cost tid now s =
           (Inr ((buy_set e amount cost r)\<lparr>updated_at := now\<rparr>),
            s\<lparr>positions := update_where_id (row_id e) (buy_set e amount cost) now (positions s)\<rparr>)"
    using assms r(3) by (simp add: recordBuy_def transaction_def Let_def)
  with r(1,2) show ?thesis by blast
qed

lemma new_position_fields [simp]:
  "row_id (new_position i w t amount cost tid now) = i"
  "wallet_id (new_position i w t amount cost tid now) = w"
  "token (new_position i w t amount cost tid now) = t"
  "status (new_position i w t amount cost tid now) = OPEN"
  "total_entry_amount (new_position i w t amount cost tid now) = numeric_18_9 amount"
  "total_entry_cost (new_position i w t amount cost tid now) = numeric_18_9 cost"
  "avg_entry_price (new_position i w t amount cost tid now) = numeric_18_9 (cost / amount)"
  "current_amount (new_position i w t amount cost tid now) = numeric_18_9 amount"
  "total_exit_amount (new_position i w t amount cost tid now) = 0"
  "realized_pnl (new_position i w t amount cost tid now) = 0"
  "closed_at (new_position i w t amount cost tid now) = None"
  by (simp_all add: new_position_def Let_def)

lemma is_open_for_new_position [simp]:
  "is_open_for w t (new_position i w t amount cost tid now)"
  by (simp add: is_open_for_def new_position_def Let_def)

lemma getOpenPosition_Some_iff:
  "getOpenPosition w t s = Some pos \<longleftrightarrow> select_open w t (positions s) = [pos]"
proof (cases "select_open w t (positions s)")
  case Nil
  then show ?thesis by (simp add: getOpenPosition_def)
next
  case (Cons p ps)
  then have "ps = []" by (simp add: select_open_ConsD)
  with Cons show ?thesis by (auto simp: getOpenPosition_def)
qed

lemma getOpenPosition_None_iff:
  "getOpenPosition w t s = None \<longleftrightarrow> select_open w t (positions s) = []"
  by (simp add: getOpenPosition_def split: list.splits)

section \<open>Claims about rejected sells\<close>

lemmas flag_defs = flag_oversized_def flag_suspicious_def flagIssue_def new_flags_def Let_def

lemma flag_oversized_positions [simp]:
  "positions (flag_oversized pos w t tid now c) = positions c"
  by (simp add: flag_oversized_def Let_def)

lemma flag_suspicious_positions [simp]:
  "positions (flag_suspicious pos w a p tid now c) = positions c"
  by (simp add: flag_suspicious_def Let_def)

text \<open>
  Claim C2. A sell with valid input that finds no OPEN or PARTIAL position, or whose amount
  exceeds the \<open>current_amount\<close> of the position found, is rejected; it appends exactly
  one flag to \<open>position_flags\<close>, of type \<open>sell_without_position\<close> or
  \<open>sell_exceeds_position\<close> respectively and of severity \<open>critical\<close>, and it leaves
  the table \<open>positions\<close> as it was.
\<close>

theorem recordSell_rejection_flag:
  assumes "0 < amount" and "0 \<le> proceeds"
  shows "(getOpenPosition w t s = None \<longrightarrow>
           (\<exists>f s'. recordSell w t amount proceeds tid now s = (Inl (NoOpenPosition amount t w), s')
              \<and> positions s' = positions s
              \<and> position_flags s' = position_flags s @ [f]
              \<and> flag_type f = sell_without_position \<and> severity f = critical
              \<and> flag_position_id f = None \<and> flag_wallet_id f = w))
       \<and> (\<forall>pos. getOpenPosition w t s = Some pos \<and> current_amount pos < amount \<longrightarrow>
           (\<exists>f s'. recordSell w t amount proceeds tid now s =
                      (Inl (InsufficientPosition amount t (current_amount pos) (row_id pos)), s')
              \<and> positions s' = positions s
              \<and> position_flags s' = position_flags s @ [f]
              \<and> flag_type f = sell_exceeds_position \<and> severity f = critical
              \<and> flag_wallet_id f = w))"
proof (intro conjI impI allI)
  assume "getOpenPosition w t s = None"
  then have "select_open w t (positions s) = []" by (simp add: getOpenPosition_None_iff)
  from recordSell_no_position [OF assms this, of tid now]
  show "\<exists>f s'. recordSell w t amount proceeds tid now s = (Inl (NoOpenPosition amount t w), s')
              \<and> positions s' = positions s
              \<and> position_flags s' = position_flags s @ [f]
              \<and> flag_type f = sell_without_position \<and> severity f = critical
              \<and> flag_position_id f = None \<and> flag_wallet_id f = w"
    by (simp add: flagIssue_def or_null_nat_def)
next
  fix pos
  assume "getOpenPosition w t s = Some pos \<and> current_amount pos < amount"
  then have "select_open w t (positions s) = [pos]" and lt: "current_amount pos < amount"
    by (simp_all add: getOpenPosition_Some_iff)
  from recordSell_exceeds [OF assms this, of tid now]
  show "\<exists>f s'. recordSell w t amount proceeds tid now s =
                      (Inl (InsufficientPosition amount t (current_amount pos) (row_id pos)), s')
              \<and> positions s' = positions s
              \<and> position_flags s' = position_flags s @ [f]
              \<and> flag_type f = sell_exceeds_position \<and> severity f = critical
              \<and> flag_wallet_id f = w"
    by (simp add: flagIssue_def)
qed


theorem recordSell_rejection_flag_witness:
  "(0::rat) < 150 \<and> (0::rat) \<le> 900
   \<and> getOpenPosition 1 ''SOL'' empty_db = None
   \<and> (\<exists>f s'. recordSell 1 ''SOL'' 150 900 1003 7 empty_db =
                 (Inl (NoOpenPosition 150 ''SOL'' 1), s')
          \<and> positions s' = positions empty_db
          \<and> position_flags s' = position_flags empty_db @ [f]
          \<and> flag_type f = sell_without_position \<and> severity f = critical)
   \<and> (let s = \<lparr>positions = [new_position 1 1 ''SOL'' 100 1000 1001 5], position_flags = [],
                   positions_seq = 2, position_flags_seq = 1\<rparr>
      in getOpenPosition 1 ''SOL'' s = Some (new_position 1 1 ''SOL'' 100 1000 1001 5)
         \<and> current_amount (new_position 1 1 ''SOL'' 100 1000 1001 5) < 150
         \<and> (\<exists>f s'. recordSell 1 ''SOL'' 150 900 1003 7 s =
                 (Inl (InsufficientPosition 150 ''SOL'' 100 1), s')
              \<and> positions s' = positions s
              \<and> position_flags s' = position_flags s @ [f]
              \<and> flag_type f = sell_exceeds_position \<and> severity f = critical))"
proof -
  let ?p = "new_position 1 1 ''SOL'' 100 1000 1001 5"
  let ?s = "\<lparr>positions = [?p], position_flags = [], positions_seq = 2, position_flags_seq = 1\<rparr>"
  have a: "(0::rat) < 150" and p: "(0::rat) \<le> 900" by simp_all
  have none: "getOpenPosition 1 ''SOL'' empty_db = None"
    by (simp add: getOpenPosition_def select_open_def empty_db_def)
  have some: "getOpenPosition 1 ''SOL'' ?s = Some ?p"
    by (simp add: getOpenPosition_def select_open_def)
  have cur: "current_amount ?p = 100" and rid: "row_id ?p = 1"
    by (simp_all add: new_position_def Let_def)
  from recordSell_rejection_flag [OF a p, of 1 "''SOL''" empty_db 1003 7] none
  have first: "\<exists>f s'. recordSell 1 ''SOL'' 150 900 1003 7 empty_db =
                 (Inl (NoOpenPosition 150 ''SOL'' 1), s')
          \<and> positions s' = positions empty_db
          \<and> position_flags s' = position_flags empty_db @ [f]
          \<and> flag_type f = sell_without_position \<and> severity f = critical"
    by blast
  from recordSell_rejection_flag [OF a p, of 1 "''SOL''" ?s 1003 7] some cur rid
  have second: "\<exists>f s'. recordSell 1 ''SOL'' 150 900 1003 7 ?s =
                 (Inl (InsufficientPosition 150 ''SOL'' 100 1), s')
              \<and> positions s' = positions ?s
              \<and> position_flags s' = position_flags ?s @ [f]
              \<and> flag_type f = sell_exceeds_position \<and> severity f = critical"
    by fastforce
  from a p none some cur first second show ?thesis
    unfolding Let_def by simp
qed

section \<open>Claims about buys\<close>

lemma recordBuy_flags:
  "position_flags (snd (recordBuy w t amount cost tid now s)) = position_flags s
   \<and> position_flags_seq (snd (recordBuy w t amount cost tid now s)) = position_flags_seq s"
proof (cases "0 < amount \<and> 0 < cost")
  case False
  then show ?thesis
    by (cases "amount \<le> 0") (simp_all add: recordBuy_invalid_amount recordBuy_invalid_cost)
next
  case True
  show ?thesis
  proof (cases "select_open w t (positions s)")
    case Nil
    with True show ?thesis by (simp add: recordBuy_create)
  next
    case (Cons e es)
    from True have "0 < amount" "0 < cost" by simp_all
    from recordBuy_update [OF this Cons, of tid now] show ?thesis by auto
  qed
qed

text \<open>
  Claim C8. \<open>recordBuy\<close> with a received amount or a spent cost that is not strictly
  positive fails with an invalid-input error and returns the persisted state untouched
  (no row written, no flag raised); and no call of \<open>recordBuy\<close>, accepted or rejected,
  changes the table of flags.
\<close>

theorem recordBuy_invalid_input_no_flag:
  "(amount \<le> 0 \<or> cost \<le> 0 \<longrightarrow>
      (\<exists>e. recordBuy w t amount cost tid now s = (Inl e, s) \<and> invalid_input e))
   \<and> position_flags (snd (recordBuy w t amount cost tid now s)) = position_flags s"
proof -
  have "\<exists>e. recordBuy w t amount cost tid now s = (Inl e, s) \<and> invalid_input e"
    if "amount \<le> 0 \<or> cost \<le> 0"
    using that
    by (cases "amount \<le> 0") (simp_all add: recordBuy_invalid_amount recordBuy_invalid_cost)
  then show ?thesis using recordBuy_flags [of w t amount cost tid now s] by blast
qed

theorem recordBuy_invalid_input_no_flag_witness:
  "((0::rat) \<le> 0 \<or> (1000::rat) \<le> 0)
   \<and> (\<exists>e. recordBuy 1 ''SOL'' 0 1000 1001 5 empty_db = (Inl e, empty_db) \<and> invalid_input e)
   \<and> position_flags (snd (recordBuy 1 ''SOL'' 0 1000 1001 5 empty_db)) = position_flags empty_db"
  using recordBuy_invalid_input_no_flag [of 0 1000 1 "''SOL''" 1001 5 empty_db] by simp

section \<open>Claims about the advisory flags of a sell\<close>

lemma new_flags_sell:
  "new_flags s (flag_suspicious pos w amount proceeds tid now
                  (flag_oversized pos w t tid now (s\<lparr>positions := rows\<rparr>))) =
     (if current_amount pos * avg_entry_price pos > large_position_threshold
      then [\<lparr>flag_id = position_flags_seq s,
             flag_position_id = or_null_nat (Some (row_id pos)),
             flag_trade_id = or_null_int (Some tid),
             flag_wallet_id = w, flag_type = oversized_position, severity = warning,
             description = LargePositionText t (current_amount pos * avg_entry_price pos) w,
             resolved = False, flag_created_at = now\<rparr>]
      else [])
     @ (if proceeds - avg_entry_price pos * amount < 0
           \<and> proceeds > avg_entry_price pos * amount * (11 / 10)
        then [\<lparr>flag_id = (if current_amount pos * avg_entry_price pos > large_position_threshold
                          then Suc (position_flags_seq s) else position_flags_seq s),
               flag_position_id = or_null_nat (Some (row_id pos)),
               flag_trade_id = or_null_int (Some tid),
               flag_wallet_id = w, flag_type = suspicious_pnl, severity = warning,
               description = SuspiciousPnlText (proceeds - avg_entry_price pos * amount)
                               (row_id pos) tid,
               resolved = False, flag_created_at = now\<rparr>]
        else [])"
  by (simp add: flag_defs)

text \<open>
  Claim C10. In a successful sell the \<open>suspicious_pnl\<close> flag, of severity \<open>warning\<close>,
  is raised exactly when the realized P&L of the sell is negative while the proceeds exceed
  the cost basis times 1.1. The realized P&L is the proceeds minus the cost basis, so when
  the average entry price is not negative the cost basis is not negative, the condition
  cannot hold, and the flag is not raised.
\<close>

theorem recordSell_suspicious_flag:
  assumes "0 < amount" and "0 \<le> proceeds"
    and "getOpenPosition w t s = Some pos" and "amount \<le> current_amount pos"
  shows "\<exists>r s'. recordSell w t amount proceeds tid now s = (Inr r, s')
      \<and> ((\<exists>f\<in>set (new_flags s s'). flag_type f = suspicious_pnl) \<longleftrightarrow>
            result_realized_pnl r < 0 \<and> proceeds > cost_basis r * (11 / 10))
      \<and> (\<forall>f\<in>set (new_flags s s'). flag_type f = suspicious_pnl \<longrightarrow> severity f = warning)
      \<and> result_realized_pnl r = proceeds - cost_basis r
      \<and> cost_basis r = avg_entry_price pos * amount
      \<and> (0 \<le> avg_entry_price pos \<longrightarrow>
            0 \<le> cost_basis r
            \<and> \<not> (result_realized_pnl r < 0 \<and> proceeds > cost_basis r * (11 / 10))
            \<and> (\<forall>f\<in>set (new_flags s s'). flag_type f \<noteq> suspicious_pnl))"
proof -
  from assms(3) have sel: "select_open w t (positions s) = [pos]"
    by (simp add: getOpenPosition_Some_iff)
  from recordSell_success [OF assms(1,2) sel assms(4), of tid now]
  obtain r0 where eq: "recordSell w t amount proceeds tid now s =
           (Inr \<lparr>position = (sell_set pos amount proceeds now r0)\<lparr>updated_at := now\<rparr>,
                 result_realized_pnl = proceeds - avg_entry_price pos * amount,
                 cost_basis = avg_entry_price pos * amount\<rparr>,
            flag_suspicious pos w amount proceeds tid now
              (flag_oversized pos w t tid now
                 (s\<lparr>positions := update_where_id (row_id pos) (sell_set pos amount proceeds now)
                                    now (positions s)\<rparr>)))"
    by blast
  have unsat: "\<not> (proceeds - avg_entry_price pos * amount < 0
                 \<and> proceeds > avg_entry_price pos * amount * (11 / 10))"
    if "0 \<le> avg_entry_price pos"
  proof -
    define cb where "cb = avg_entry_price pos * amount"
    from that assms(1) have "0 \<le> cb" by (simp add: cb_def)
    then have "cb \<le> cb * (11 / 10)" by linarith
    then have "\<not> (proceeds - cb < 0 \<and> proceeds > cb * (11 / 10))" by linarith
    then show ?thesis by (simp add: cb_def)
  qed
  have nonneg: "0 \<le> avg_entry_price pos * amount" if "0 \<le> avg_entry_price pos"
    using that assms(1) by simp
  let ?s' = "flag_suspicious pos w amount proceeds tid now
              (flag_oversized pos w t tid now
                 (s\<lparr>positions := update_where_id (row_id pos) (sell_set pos amount proceeds now)
                                    now (positions s)\<rparr>))"
  let ?cb = "avg_entry_price pos * amount"
  have nf: "(\<exists>f\<in>set (new_flags s ?s'). flag_type f = suspicious_pnl) \<longleftrightarrow>
            proceeds - ?cb < 0 \<and> proceeds > ?cb * (11 / 10)"
    by (simp add: new_flags_sell)
  have sev: "\<forall>f\<in>set (new_flags s ?s'). flag_type f = suspicious_pnl \<longrightarrow> severity f = warning"
    by (simp add: new_flags_sell)
  have never: "\<forall>f\<in>set (new_flags s ?s'). flag_type f \<noteq> suspicious_pnl"
    if "0 \<le> avg_entry_price pos"
    using nf unsat [OF that] by blast
  from eq nf sev never unsat nonneg show ?thesis by simp
qed

theorem recordSell_suspicious_flag_witness:
  "let p = new_position 1 1 ''SOL'' 100 1000 1001 5;
       s = \<lparr>positions = [p], position_flags = [], positions_seq = 2, position_flags_seq = 1\<rparr>
   in (0::rat) < 30 \<and> (0::rat) \<le> 200 \<and> getOpenPosition 1 ''SOL'' s = Some p
      \<and> 30 \<le> current_amount p \<and> 0 \<le> avg_entry_price p
      \<and> (\<exists>r s'. recordSell 1 ''SOL'' 30 200 1002 6 s = (Inr r, s')
            \<and> result_realized_pnl r = 200 - cost_basis r
            \<and> cost_basis r = avg_entry_price p * 30
            \<and> (\<forall>f\<in>set (new_flags s s'). flag_type f \<noteq> suspicious_pnl))"
proof -
  let ?p = "new_position 1 1 ''SOL'' 100 1000 1001 5"
  let ?s = "\<lparr>positions = [?p], position_flags = [], positions_seq = 2, position_flags_seq = 1\<rparr>"
  have a: "(0::rat) < 30" and pr: "(0::rat) \<le> 200" by simp_all
  have some: "getOpenPosition 1 ''SOL'' ?s = Some ?p"
    by (simp add: getOpenPosition_def select_open_def)
  have cur: "30 \<le> current_amount ?p" and avg: "0 \<le> avg_entry_price ?p"
    by (simp_all add: new_position_def Let_def)
  from recordSell_suspicious_flag [OF a pr some cur, of 1002 6] avg
  have "\<exists>r s'. recordSell 1 ''SOL'' 30 200 1002 6 ?s = (Inr r, s')
            \<and> result_realized_pnl r = 200 - cost_basis r
            \<and> cost_basis r = avg_entry_price ?p * 30
            \<and> (\<forall>f\<in>set (new_flags ?s s'). flag_type f \<noteq> suspicious_pnl)"
    by blast
  with a pr some cur avg show ?thesis unfolding Let_def by simp
qed

section \<open>The ledger invariant\<close>







lemma flagIssue_positions_seq [simp]:
  "positions_seq (flagIssue a b c d e f g s) = positions_seq s"
  by (simp add: flagIssue_def)

lemma flag_oversized_positions_seq [simp]:
  "positions_seq (flag_oversized pos w t tid now c) = positions_seq c"
  by (simp add: flag_oversized_def Let_def)

lemma flag_suspicious_positions_seq [simp]:
  "positions_seq (flag_suspicious pos w a p tid now c) = positions_seq c"
  by (simp add: flag_suspicious_def Let_def)







lemma pair_of_buy_set [simp]:
  "wallet_id (buy_set e a c r) = wallet_id r" "token (buy_set e a c r) = token r"
  by (simp_all add: buy_set_def Let_def)

lemma pair_of_sell_set [simp]:
  "wallet_id (sell_set e a p now r) = wallet_id r" "token (sell_set e a p now r) = token r"
  by (simp_all add: sell_set_def Let_def)








lemma wf_empty_db: "wf_db empty_db" and fresh_empty_db: "fresh_pair w t empty_db"
  by (simp_all add: wf_db_def fresh_pair_def empty_db_def)


lemmas ledger_defs = run_def recordBuy_def recordSell_def transaction_def select_open_def
  is_open_for_def empty_db_def new_position_def mapPosition_def update_where_id_def
  returning_def buy_set_def sell_set_def sell_status_def flag_oversized_def
  flag_suspicious_def large_position_threshold_def Let_def

section \<open>Claims that the persisted columns break\<close>

text \<open>
  Claim C3 says that on every position \<open>current_amount\<close> equals \<open>total_entry_amount\<close>
  minus \<open>total_exit_amount\<close>. The code computes the new remainder and the new exit total
  separately and each column rounds its own value, so the claim fails: after a buy of 100
  units and a sell of 0.0000000005 units the row holds entry 100, exit 0.000000001 and
  remainder 100.
\<close>

theorem remaining_amount_drift:
  "map (\<lambda>r. (wallet_id r, token r, total_entry_amount r, total_exit_amount r, current_amount r))
     (positions (run [Buy 1 ''SOL'' 100 1000 1001 5,
                      Sell 1 ''SOL'' (1 / 2000000000) (1 / 100) 1002 6] empty_db))
   = [(1, ''SOL'', 100, 1 / 1000000000, 100)]"
  using numeric_18_9_eqI [of "100 - 1 / 2000000000" 100000000000]
    numeric_18_9_eqI [of "1 / 2000000000" 1]
    numeric_18_9_eqI [of "1 / 100" 10000000]
    numeric_18_9_eqI [of "1 / 100 - 10 * (1 / 2000000000)" 9999995]
  by (simp add: ledger_defs)

text \<open>
  Claim C4 says that a position is \<open>CLOSED\<close> exactly when its remaining amount is 0,
  with the close timestamp set. The code decides the status on the computed remainder and
  the column then rounds that remainder, so the claim fails: after a buy of 1 unit and a
  sell of 0.9999999996 units the row is \<open>PARTIAL\<close> with \<open>current_amount\<close> 0 and no
  \<open>closed_at\<close>.
\<close>

theorem partial_row_without_remainder:
  "map (\<lambda>r. (status r, total_entry_amount r, total_exit_amount r, current_amount r, closed_at r))
     (positions (run [Buy 1 ''SOL'' 1 10 1001 5,
                      Sell 1 ''SOL'' (9999999996 / 10000000000) 10 1002 6] empty_db))
   = [(PARTIAL, 1, 1, 0, None)]"
  using numeric_18_9_eqI [of "1 - 9999999996 / 10000000000" 0]
    numeric_18_9_eqI [of "9999999996 / 10000000000" 1000000000]
    numeric_18_9_eqI [of "10 - 10 * (9999999996 / 10000000000)" 4]
  by (simp add: ledger_defs)

section \<open>The average entry price\<close>

lemma avg_sell_set [simp]:
  "avg_entry_price ((sell_set e amount proceeds now r)\<lparr>updated_at := now'\<rparr>) = avg_entry_price r"
  by (simp add: sell_set_def Let_def)









section \<open>The end-to-end scenario\<close>

lemma fresh_select_open: "fresh_pair w t s \<Longrightarrow> select_open w t (positions s) = []"
  by (auto simp: select_open_Nil_iff fresh_pair_def list_all_iff is_open_for_def)

lemma select_open_last:
  assumes "\<forall>r\<in>set rows. \<not> (wallet_id r = w \<and> token r = t)" and "is_open_for w t n"
  shows "select_open w t (rows @ [n]) = [n]"
proof -
  from assms(1) have "filter (is_open_for w t) rows = []"
    by (auto simp: filter_empty_conv is_open_for_def)
  with assms(2) show ?thesis by (simp add: select_open_def)
qed

lemma update_last:
  assumes "\<forall>r\<in>set rows. row_id r < row_id n"
  shows "update_where_id (row_id n) f now (rows @ [n]) = rows @ [(f n)\<lparr>updated_at := now\<rparr>]"
proof -
  have "map (\<lambda>r. if row_id r = row_id n then (f r)\<lparr>updated_at := now\<rparr> else r) rows = rows"
    using assms by (intro map_idI) auto
  then show ?thesis by (simp add: update_where_id_def)
qed

lemma recordSell_last:
  assumes rows: "positions s = rows @ [n]"
    and fresh: "\<forall>r\<in>set rows. \<not> (wallet_id r = w \<and> token r = t)"
    and ids: "\<forall>r\<in>set rows. row_id r < row_id n"
    and op: "is_open_for w t n"
    and a: "0 < amount" and p: "0 \<le> proceeds" and le: "amount \<le> current_amount n"
  shows "\<exists>s'. recordSell w t amount proceeds tid now s =
           (Inr \<lparr>position = (sell_set n amount proceeds now n)\<lparr>updated_at := now\<rparr>,
                 result_realized_pnl = proceeds - avg_entry_price n * amount,
                 cost_basis = avg_entry_price n * amount\<rparr>, s')
         \<and> positions s' = rows @ [(sell_set n amount proceeds now n)\<lparr>updated_at := now\<rparr>]"
proof -
  have sel: "select_open w t (positions s) = [n]"
    by (simp add: rows select_open_last [OF fresh op])
  from recordSell_success [OF a p sel le, of tid now]
  obtain r0 where r0: "r0 \<in> set (positions s)" "row_id r0 = row_id n" and
    eq: "recordSell w t amount proceeds tid now s =
           (Inr \<lparr>position = (sell_set n amount proceeds now r0)\<lparr>updated_at := now\<rparr>,
                 result_realized_pnl = proceeds - avg_entry_price n * amount,
                 cost_basis = avg_entry_price n * amount\<rparr>,
            flag_suspicious n w amount proceeds tid now
              (flag_oversized n w t tid now
                 (s\<lparr>positions := update_where_id (row_id n) (sell_set n amount proceeds now)
                                    now (positions s)\<rparr>)))"
    by blast
  from r0 ids rows have "r0 = n" by auto
  with eq show ?thesis by (simp add: rows update_last [OF ids])
qed

text \<open>
  Claim C6. From a fresh pair: buy 100 units at cost 1000, sell 30 for proceeds 360
  (realized P&L 60), sell 70 for proceeds 770 (cost basis 700, realized P&L 70). The final
  position has cumulative realized P&L 130, remaining amount 0, status \<open>CLOSED\<close> and
  \<open>closed_at\<close> set; each sell's cost basis is the average entry price times the sold
  amount, and its realized P&L is the proceeds minus the cost basis.
\<close>

theorem buy_sell_sell_scenario:
  assumes "wf_db s" and "fresh_pair w t s"
  shows "\<exists>p1 s1 x2 s2 x3 s3.
           recordBuy w t 100 1000 tid1 now1 s = (Inr p1, s1)
         \<and> recordSell w t 30 360 tid2 now2 s1 = (Inr x2, s2)
         \<and> recordSell w t 70 770 tid3 now3 s2 = (Inr x3, s3)
         \<and> avg_entry_price p1 = 10
         \<and> cost_basis x2 = avg_entry_price p1 * 30
         \<and> result_realized_pnl x2 = 360 - cost_basis x2
         \<and> result_realized_pnl x2 = 60
         \<and> cost_basis x3 = avg_entry_price (position x2) * 70
         \<and> result_realized_pnl x3 = 770 - cost_basis x3
         \<and> cost_basis x3 = 700 \<and> result_realized_pnl x3 = 70
         \<and> realized_pnl (position x3) = 130
         \<and> current_amount (position x3) = 0
         \<and> status (position x3) = CLOSED
         \<and> closed_at (position x3) = Some now3
         \<and> position x3 \<in> set (positions s3)
         \<and> (\<forall>r\<in>set (positions s3). wallet_id r = w \<and> token r = t \<longrightarrow> r = position x3)"
proof -
  let ?rows = "positions s"
  define p1 where "p1 = new_position (positions_seq s) w t 100 1000 tid1 now1"
  define s1 where "s1 = s\<lparr>positions := ?rows @ [p1], positions_seq := Suc (positions_seq s)\<rparr>"
  define n2 where "n2 = (sell_set p1 30 360 now2 p1)\<lparr>updated_at := now2\<rparr>"
  define x2 where "x2 = \<lparr>position = n2, result_realized_pnl = 360 - avg_entry_price p1 * 30,
                 cost_basis = avg_entry_price p1 * 30\<rparr>"
  define n3 where "n3 = (sell_set n2 70 770 now3 n2)\<lparr>updated_at := now3\<rparr>"
  define x3 where "x3 = \<lparr>position = n3, result_realized_pnl = 770 - avg_entry_price n2 * 70,
                 cost_basis = avg_entry_price n2 * 70\<rparr>"
  from assms(2) have fresh: "\<forall>r\<in>set ?rows. \<not> (wallet_id r = w \<and> token r = t)"
    by (simp add: fresh_pair_def list_all_iff)
  have p1: "current_amount p1 = 100" "avg_entry_price p1 = 10" "is_open_for w t p1"
    "row_id p1 = positions_seq s" "total_exit_amount p1 = 0" "realized_pnl p1 = 0"
    "wallet_id p1 = w" "token p1 = t"
    by (simp_all add: p1_def new_position_def is_open_for_def Let_def)
  from assms(1) have ids1: "\<forall>r\<in>set ?rows. row_id r < row_id p1"
    by (simp add: wf_db_def list_all_iff p1)
  then have ids2: "\<forall>r\<in>set ?rows. row_id r < row_id n2" by (simp add: n2_def)
  have step1: "recordBuy w t 100 1000 tid1 now1 s = (Inr p1, s1)"
    by (simp add: recordBuy_create fresh_select_open [OF assms(2)] p1_def s1_def)
  have rows1: "positions s1 = ?rows @ [p1]" by (simp add: s1_def)
  have le1: "(30::rat) \<le> current_amount p1" by (simp add: p1)
  from recordSell_last [where amount = 30 and proceeds = 360 and tid = tid2 and now = now2,
      OF rows1 fresh ids1 p1(3) _ _ le1]
  obtain s2 where step2: "recordSell w t 30 360 tid2 now2 s1 = (Inr x2, s2)"
    and rows2: "positions s2 = ?rows @ [n2]"
    unfolding x2_def n2_def by auto
  have n2: "current_amount n2 = 70" "avg_entry_price n2 = 10" "is_open_for w t n2"
    "realized_pnl n2 = 60"
    by (simp_all add: n2_def sell_set_def sell_status_def p1 is_open_for_def Let_def)
  have le2: "(70::rat) \<le> current_amount n2" by (simp add: n2)
  from recordSell_last [where amount = 70 and proceeds = 770 and tid = tid3 and now = now3,
      OF rows2 fresh ids2 n2(3) _ _ le2]
  obtain s3 where step3: "recordSell w t 70 770 tid3 now3 s2 = (Inr x3, s3)"
    and rows3: "positions s3 = ?rows @ [n3]"
    unfolding x3_def n3_def by auto
  have n3: "realized_pnl n3 = 130" "current_amount n3 = 0" "status n3 = CLOSED"
    "closed_at n3 = Some now3"
    by (simp_all add: n3_def sell_set_def sell_status_def n2 Let_def)
  have only: "\<forall>r\<in>set (positions s3). wallet_id r = w \<and> token r = t \<longrightarrow> r = n3"
    using fresh by (auto simp: rows3)
  have x2: "position x2 = n2" "cost_basis x2 = avg_entry_price p1 * 30"
    "result_realized_pnl x2 = 360 - cost_basis x2" "result_realized_pnl x2 = 60"
    by (simp_all add: x2_def p1)
  have x3: "position x3 = n3" "cost_basis x3 = avg_entry_price n2 * 70"
    "result_realized_pnl x3 = 770 - cost_basis x3" "cost_basis x3 = 700"
    "result_realized_pnl x3 = 70"
    by (simp_all add: x3_def n2)
  have mem: "n3 \<in> set (positions s3)" by (simp add: rows3)
  have all: "recordBuy w t 100 1000 tid1 now1 s = (Inr p1, s1)
         \<and> recordSell w t 30 360 tid2 now2 s1 = (Inr x2, s2)
         \<and> recordSell w t 70 770 tid3 now3 s2 = (Inr x3, s3)
         \<and> avg_entry_price p1 = 10
         \<and> cost_basis x2 = avg_entry_price p1 * 30
         \<and> result_realized_pnl x2 = 360 - cost_basis x2
         \<and> result_realized_pnl x2 = 60
         \<and> cost_basis x3 = avg_entry_price (position x2) * 70
         \<and> result_realized_pnl x3 = 770 - cost_basis x3
         \<and> cost_basis x3 = 700 \<and> result_realized_pnl x3 = 70
         \<and> realized_pnl (position x3) = 130
         \<and> current_amount (position x3) = 0
         \<and> status (position x3) = CLOSED
         \<and> closed_at (position x3) = Some now3
         \<and> position x3 \<in> set (positions s3)
         \<and> (\<forall>r\<in>set (positions s3). wallet_id r = w \<and> token r = t \<longrightarrow> r = position x3)"
    unfolding x2(1) x3(1)
    using step1 step2 step3 p1(2) x2(2-) x3(2-) n3 mem only by (intro conjI)
  show ?thesis
    apply (rule exI [where x = p1], rule exI [where x = s1], rule exI [where x = x2],
        rule exI [where x = s2], rule exI [where x = x3], rule exI [where x = s3])
    apply (rule all)
    done
qed

theorem buy_sell_sell_scenario_witness:
  "wf_db empty_db \<and> fresh_pair 1 ''SOL'' empty_db
   \<and> (\<exists>p1 s1 x2 s2 x3 s3.
           recordBuy 1 ''SOL'' 100 1000 1001 5 empty_db = (Inr p1, s1)
         \<and> recordSell 1 ''SOL'' 30 360 1002 6 s1 = (Inr x2, s2)
         \<and> recordSell 1 ''SOL'' 70 770 1003 7 s2 = (Inr x3, s3)
         \<and> result_realized_pnl x2 = 60
         \<and> cost_basis x3 = 700 \<and> result_realized_pnl x3 = 70
         \<and> realized_pnl (position x3) = 130
         \<and> current_amount (position x3) = 0
         \<and> status (position x3) = CLOSED
         \<and> closed_at (position x3) = Some 7)"
proof -
  from buy_sell_sell_scenario [OF wf_empty_db fresh_empty_db, of 1 "''SOL''" 1001 5 1002 6 1003 7]
  obtain p1 s1 x2 s2 x3 s3 where
    "recordBuy 1 ''SOL'' 100 1000 1001 5 empty_db = (Inr p1, s1)"
    "recordSell 1 ''SOL'' 30 360 1002 6 s1 = (Inr x2, s2)"
    "recordSell 1 ''SOL'' 70 770 1003 7 s2 = (Inr x3, s3)"
    "result_realized_pnl x2 = 60" "cost_basis x3 = 700" "result_realized_pnl x3 = 70"
    "realized_pnl (position x3) = 130" "current_amount (position x3) = 0"
    "status (position x3) = CLOSED" "closed_at (position x3) = Some 7"
    by blast
  with wf_empty_db fresh_empty_db show ?thesis by blast
qed


end
